theory Spec2Isabelle
  imports Main "HOL-Library.Sublist"
begin

section \<open>Python values and strings\<close>

text \<open>
  Python strings are modelled as \<^typ>\<open>string\<close>. The characters that cannot be written
  inside a string literal get a name each.
\<close>

definition sq :: char where "sq = CHR 0x27"  \<comment> \<open>the single quote\<close>
definition bs :: char where "bs = CHR 0x5C"  \<comment> \<open>the backslash\<close>
definition dq :: char where "dq = CHR 0x22"  \<comment> \<open>the double quote\<close>
definition nl :: char where "nl = CHR 0x0A"  \<comment> \<open>the newline\<close>

text \<open>
  The exceptions of the program. \<open>ValueError\<close> is what both constructors raise on a
  contract violation (the specification calls it \<open>ConfigurationError\<close>); \<open>SSHException\<close>
  stands for any exception raised by the underlying SSH client while connecting, running
  a command or reading its output.
\<close>

datatype error = ValueError string | SSHException string

text \<open>\<open>str(n)\<close> for a Python integer: decimal digits, with a minus sign when negative.\<close>

definition digit_char :: "nat \<Rightarrow> char" where
  "digit_char d = ''0123456789'' ! d"

function str_nat :: "nat \<Rightarrow> string" where
  "str_nat n = (if n < 10 then [digit_char n] else str_nat (n div 10) @ [digit_char (n mod 10)])"
  by pat_completeness auto
termination
  by (relation "measure id") auto

declare str_nat.simps [simp del]

definition str_int :: "int \<Rightarrow> string" where
  "str_int i = (if i < 0 then CHR ''-'' # str_nat (nat (- i)) else str_nat (nat i))"

text \<open>
  The \<open>cpus\<close> option is declared \<open>Optional[float]\<close> and defaults to the integer \<open>1\<close>.
  The program looks at such a number in two ways only: its truth value (\<open>cpus or 1\<close>) and
  its \<open>str()\<close> text in the f-string. Floating-point arithmetic is not modelled: a float is
  carried as its \<open>str()\<close> text. A float is false exactly when it is \<open>0.0\<close> or \<open>-0.0\<close>,
  which are the floats that print as such.
\<close>

datatype py_number = PyInt int | PyFloat string

fun py_str :: "py_number \<Rightarrow> string" where
  "py_str (PyInt i) = str_int i"
| "py_str (PyFloat s) = s"

fun truthy :: "py_number \<Rightarrow> bool" where
  "truthy (PyInt i) = (i \<noteq> 0)"
| "truthy (PyFloat s) = (s \<noteq> ''0.0'' \<and> s \<noteq> ''-0.0'')"

text \<open>
  \<open>s.replace(c, new)\<close> with a one-character \<open>c\<close>: every occurrence of the character
  is replaced, from left to right.
\<close>

definition replace :: "string \<Rightarrow> char \<Rightarrow> string \<Rightarrow> string" where
  "replace s c new = concat (map (\<lambda>x. if x = c then new else [x]) s)"

text \<open>\<open>sep.join(xs)\<close>.\<close>

fun join :: "string \<Rightarrow> string list \<Rightarrow> string" where
  "join sep [] = []"
| "join sep [x] = x"
| "join sep (x # y # ys) = x @ sep @ join sep (y # ys)"

text \<open>
  \<open>s.strip(chars)\<close>: the leading and the trailing characters that belong to \<open>chars\<close>
  are removed.
\<close>

definition strip :: "string \<Rightarrow> string \<Rightarrow> string" where
  "strip s chars =
     rev (dropWhile (\<lambda>c. c \<in> set chars) (rev (dropWhile (\<lambda>c. c \<in> set chars) s)))"


section \<open>The manifest builder (\<open>uv_config/config_pyproject.py\<close>)\<close>

text \<open>
  Modelled from the spec: the module \<open>open_sandboxes.models\<close>, which declares the typed
  dictionaries \<open>PyprojectDependency\<close>, \<open>ExecCommandResponse\<close> and \<open>CodeOutput\<close>. Their keys
  are the ones the source reads and writes: a dependency has a \<open>name\<close> and its
  \<open>version_constraints\<close>, a response of the transport has \<open>stderr\<close> and \<open>stdout\<close>, the
  result of a run has \<open>output\<close> and \<open>error\<close>.
\<close>

record PyprojectDependency =
  dep_name :: string
  version_constraints :: string

record ExecCommandResponse =
  stderr :: string
  stdout :: string

record CodeOutput =
  co_output :: string  \<comment> \<open>the key \<open>output\<close>\<close>
  co_error :: string  \<comment> \<open>the key \<open>error\<close>\<close>

record PyprojectConfig =
  dependencies :: "PyprojectDependency list"
  title :: string
  python_min_version :: string
  python_max_version :: string

text \<open>
  One round of the loop of \<open>to_str\<close>: the entry is appended, then commas and newlines
  are stripped from both ends of what has been accumulated.
\<close>

definition add_dependency :: "string \<Rightarrow> PyprojectDependency \<Rightarrow> string" where
  "add_dependency deps dependency =
     strip (deps @ ''    '' @ [dq] @ dep_name dependency @ version_constraints dependency
              @ [dq] @ '','' @ [nl])
           ('','' @ [nl])"

definition to_str :: "PyprojectConfig \<Rightarrow> string" where
  "to_str self =
     (let deps = foldl add_dependency [] (dependencies self) in
      [nl] @ ''[project]'' @ [nl]
      @ ''name = '' @ [dq] @ title self @ [dq] @ [nl]
      @ ''version = '' @ [dq] @ ''0.1.0'' @ [dq] @ [nl]
      @ ''description = '' @ [dq] @ ''Add your description here'' @ [dq] @ [nl]
      @ ''requires-python = '' @ [dq] @ ''>='' @ python_min_version self @ '',<''
          @ python_max_version self @ [dq] @ [nl]
      @ ''dependencies = ['' @ [nl]
      @ ''    '' @ deps @ [nl]
      @ '']'' @ [nl])"


section \<open>The remote transport (\<open>ssh_connection/base.py\<close>)\<close>

text \<open>
  The SSH client is an object of a library. The model records the calls the program makes
  on it, in order, and takes what the remote side answers as an input of each call.
  The timeout is only handed on, so its type is left open.
\<close>

datatype 't client_call =
    SetMissingHostKeyPolicy
  | ConnectKey string int string string "string option"
      \<comment> \<open>hostname, port, username, passphrase, key_filename\<close>
  | ConnectPassword string int string string
      \<comment> \<open>hostname, port, username, password\<close>
  | ExecCommand string "'t option"
      \<comment> \<open>command, timeout\<close>
  | CloseClient

record 't SSHConnection =
  key_file :: "string option"
  password :: string
  is_passphrase :: bool
  host :: string
  port :: int
  username :: string
  client :: "'t client_call list"
  is_connected :: bool

definition SSHConnection_init ::
  "string \<Rightarrow> int \<Rightarrow> string \<Rightarrow> string option \<Rightarrow> string option \<Rightarrow> string option
     \<Rightarrow> error + 't SSHConnection" where
  "SSHConnection_init h p u pw pp kf =
     (if pw = None \<and> pp = None then
        Inl (ValueError ''You must provide one of password and passphrase'')
      else if pw \<noteq> None \<and> pp = None then
        Inr \<lparr>key_file = None, password = the pw, is_passphrase = False,
             host = h, port = p, username = u, client = [], is_connected = False\<rparr>
      else if kf = None then
        (if pw \<noteq> None then
           Inr \<lparr>key_file = None, password = the pw, is_passphrase = False,
                host = h, port = p, username = u, client = [], is_connected = False\<rparr>
         else
           Inl (ValueError
             ''If you provide a passhprase, you must also provide the file where the private key is stored''))
      else
        Inr \<lparr>key_file = kf, password = the pp, is_passphrase = True,
             host = h, port = p, username = u, client = [], is_connected = False\<rparr>)"

text \<open>
  What the remote side answers during one call of \<open>execute_command\<close>: whether
  \<open>connect\<close> raises (looked at only if the call connects), and either the exception
  raised while the command runs or its output is read, or the decoded standard output
  and standard error.
\<close>

record client_reply =
  connect_raises :: "string option"
  exec_result :: "string + string \<times> string"

text \<open>
  \<open>_connect\<close>: the host key policy is set, then the client connects with the passphrase
  and the key file or with the password. The flag \<open>_is_connected\<close> is set only after
  \<open>connect\<close> has returned.
\<close>

definition connect_call :: "'t SSHConnection \<Rightarrow> 't client_call" where
  "connect_call self =
     (if is_passphrase self
      then ConnectKey (host self) (port self) (username self) (password self) (key_file self)
      else ConnectPassword (host self) (port self) (username self) (password self))"

definition connect :: "'t SSHConnection \<Rightarrow> string option \<Rightarrow> error option \<times> 't SSHConnection" where
  "connect self raised =
     (let s1 = self\<lparr>client := client self @ [SetMissingHostKeyPolicy]\<rparr>;
          s2 = s1\<lparr>client := client s1 @ [connect_call s1]\<rparr>
      in case raised of
           Some msg \<Rightarrow> (Some (SSHException msg), s2)
         | None \<Rightarrow> (None, s2\<lparr>is_connected := True\<rparr>))"

definition execute_command ::
  "'t SSHConnection \<Rightarrow> string \<Rightarrow> 't option \<Rightarrow> client_reply
     \<Rightarrow> (error + ExecCommandResponse) \<times> 't SSHConnection" where
  "execute_command self command timeout reply =
     (case (if \<not> is_connected self then connect self (connect_raises reply) else (None, self)) of
        (Some e, s1) \<Rightarrow> (Inl e, s1)
      | (None, s1) \<Rightarrow>
          (let s2 = s1\<lparr>client := client s1 @ [ExecCommand command timeout]\<rparr> in
           case exec_result reply of
             Inl msg \<Rightarrow> (Inl (SSHException msg), s2)
           | Inr (out, err) \<Rightarrow> (Inr \<lparr>stderr = err, stdout = out\<rparr>, s2)))"

text \<open>\<open>_close\<close> closes the client; the flag \<open>_is_connected\<close> is left as it is.\<close>

definition close :: "'t SSHConnection \<Rightarrow> 't SSHConnection" where
  "close self = self\<lparr>client := client self @ [CloseClient]\<rparr>"

text \<open>
  A sequence of calls on one transport: each call is a command, a timeout and what the
  remote side answers. An exception of one call is seen by its caller; the transport
  object lives on and takes the next call.
\<close>

fun execute_commands ::
  "'t SSHConnection \<Rightarrow> (string \<times> 't option \<times> client_reply) list \<Rightarrow> 't SSHConnection" where
  "execute_commands self [] = self"
| "execute_commands self ((command, timeout, reply) # calls) =
     execute_commands (snd (execute_command self command timeout reply)) calls"

fun is_connect_call :: "'t client_call \<Rightarrow> bool" where
  "is_connect_call (ConnectKey h p u pp kf) = True"
| "is_connect_call (ConnectPassword h p u pw) = True"
| "is_connect_call c = False"


section \<open>The sandbox orchestrator (\<open>sandbox.py\<close>)\<close>

text \<open>
  The file system as the constructor sees it: a path leads to nothing, to a regular file
  with its text, or to a directory. \<open>Path.exists\<close>, \<open>Path.is_file\<close> and
  \<open>open(path).read()\<close> are read off it. Files that exist and cannot be read are not
  modelled.
\<close>

datatype fs_node = File string | Directory

type_synonym filesystem = "string \<Rightarrow> fs_node option"

definition path_exists :: "filesystem \<Rightarrow> string \<Rightarrow> bool" where
  "path_exists fs p = (fs p \<noteq> None)"

definition path_is_file :: "filesystem \<Rightarrow> string \<Rightarrow> bool" where
  "path_is_file fs p = (case fs p of Some (File content) \<Rightarrow> True | _ \<Rightarrow> False)"

definition read_file :: "filesystem \<Rightarrow> string \<Rightarrow> string" where
  "read_file fs p = (case fs p of Some (File content) \<Rightarrow> content | _ \<Rightarrow> [])"

record 't Sandbox =
  pyproject :: string
  name :: string
  remote_connection :: "'t SSHConnection"

definition Sandbox_init ::
  "filesystem \<Rightarrow> string \<Rightarrow> 't SSHConnection \<Rightarrow> PyprojectConfig option \<Rightarrow> string option
     \<Rightarrow> error + 't Sandbox" where
  "Sandbox_init fs n conn config pyproject_file_path =
     (if config = None \<and> pyproject_file_path = None then
        Inl (ValueError
          ''You need to provide either a configuration or the path to a pyproject file'')
      else if config \<noteq> None \<and> pyproject_file_path \<noteq> None then
        Inl (ValueError
          ''You can provide either a configuration or the path to a pyproject file, not both'')
      else if config \<noteq> None \<and> pyproject_file_path = None then
        Inr \<lparr>pyproject = to_str (the config), name = n, remote_connection = conn\<rparr>
      else if \<not> path_exists fs (the pyproject_file_path)
              \<or> \<not> path_is_file fs (the pyproject_file_path) then
        Inl (ValueError ''The provided path either does not exist or is not a file'')
      else
        Inr \<lparr>pyproject = read_file fs (the pyproject_file_path), name = n,
             remote_connection = conn\<rparr>)"

text \<open>
  \<open>from_connection_args\<close>: the transport is built first, then the sandbox around it;
  an exception of either constructor is the exception of the call.
\<close>

definition from_connection_args ::
  "filesystem \<Rightarrow> string \<Rightarrow> string \<Rightarrow> int \<Rightarrow> string \<Rightarrow> string option \<Rightarrow> string option
     \<Rightarrow> string option \<Rightarrow> PyprojectConfig option \<Rightarrow> string option \<Rightarrow> error + 't Sandbox" where
  "from_connection_args fs n h p u pw pp kf config pyproject_file_path =
     (case SSHConnection_init h p u pw pp kf of
        Inl e \<Rightarrow> Inl e
      | Inr conn \<Rightarrow> Sandbox_init fs n conn config pyproject_file_path)"

text \<open>
  \<open>_get_env_exports\<close>. The dictionary is the list of its items in iteration order. A
  value is modelled by its \<open>str()\<close> text, which is what the f-string embeds.
\<close>

definition get_env_exports :: "(string \<times> string) list \<Rightarrow> string" where
  "get_env_exports environment =
     join '' && '' (map (\<lambda>(k, v). ''export '' @ k @ ''='' @ [sq] @ v @ [sq]) environment)"

text \<open>\<open>x or default\<close>: the default replaces a value that is absent or false.\<close>

definition py_or :: "('a \<Rightarrow> bool) \<Rightarrow> 'a option \<Rightarrow> 'a \<Rightarrow> 'a" where
  "py_or truth x dflt = (case x of None \<Rightarrow> dflt | Some v \<Rightarrow> if truth v then v else dflt)"

text \<open>
  Lines 139 to 145 of \<open>run_code\<close>: the limits after the defaults, and the two texts
  after the replacement of their single quotes.
\<close>

definition cpu_limit :: "py_number option \<Rightarrow> py_number" where
  "cpu_limit cpus = py_or truthy cpus (PyInt 1)"

definition memory_limit :: "int option \<Rightarrow> int" where
  "memory_limit memory = py_or (\<lambda>m. m \<noteq> 0) memory 512"

definition processes_limit :: "int option \<Rightarrow> int" where
  "processes_limit processes = py_or (\<lambda>p. p \<noteq> 0) processes 100"

definition read_rate_limit :: "string option \<Rightarrow> string" where
  "read_rate_limit read_rate = py_or (\<lambda>r. r \<noteq> []) read_rate ''10mb''"

definition write_rate_limit :: "string option \<Rightarrow> string" where
  "write_rate_limit write_rate = py_or (\<lambda>w. w \<noteq> []) write_rate ''10mb''"

definition pyproject_escaped :: "'t Sandbox \<Rightarrow> string" where
  "pyproject_escaped self = replace (pyproject self) sq [sq, bs, sq, sq]"

definition code_escaped :: "string \<Rightarrow> string" where
  "code_escaped code = replace code sq [sq, bs, sq, sq]"

text \<open>
  The command that \<open>run_code\<close> assembles (lines 146 to 171). In the triple-quoted
  templates a backslash at the end of a line joins that line with the next one, so the
  text holds neither the backslash nor the newline there.
\<close>

definition run_code_command ::
  "'t Sandbox \<Rightarrow> string \<Rightarrow> (string \<times> string) list option \<Rightarrow> py_number option \<Rightarrow> int option
     \<Rightarrow> int option \<Rightarrow> string option \<Rightarrow> string option \<Rightarrow> string" where
  "run_code_command self code environment cpus memory processes read_rate write_rate =
     (if environment \<noteq> None \<and> the environment \<noteq> [] then
        (let exports = get_env_exports (the environment) in
         ''docker run --pids-limit '' @ str_int (processes_limit processes)
         @ '' --cpus '' @ py_str (cpu_limit cpus)
         @ '' -m '' @ str_int (memory_limit memory)
         @ ''m --device-read-bps=/dev/sda:'' @ read_rate_limit read_rate
         @ '' --device-write-bps=/dev/sda:'' @ write_rate_limit write_rate
         @ '' --rm ghcr.io/astral-sh/uv:alpine /bin/sh -c '' @ [sq, nl]
         @ exports @ '' && mkdir -p /tmp/'' @ name self
         @ '' && cat > /tmp/'' @ name self @ ''/pyproject.toml << '' @ [dq] @ ''EOF'' @ [dq, nl]
         @ pyproject_escaped self @ [nl]
         @ ''EOF'' @ [nl]
         @ ''cat > /tmp/'' @ name self @ ''/script.py << '' @ [dq] @ ''EOF'' @ [dq, nl]
         @ code_escaped code @ [nl]
         @ ''EOF'' @ [nl]
         @ ''cd /tmp/'' @ name self @ ''/ && uv run script.py'' @ [nl, sq])
      else
        ''docker run --pids-limit '' @ str_int (processes_limit processes)
        @ '' --cpus '' @ py_str (cpu_limit cpus)
        @ '' -m '' @ str_int (memory_limit memory)
        @ ''m --device-read-bps=/dev/sda:'' @ read_rate_limit read_rate
        @ '' --device-write-bps=/dev/sda:'' @ write_rate_limit write_rate
        @ '' --rm ghcr.io/astral-sh/uv:alpine /bin/sh -c '' @ [sq, nl]
        @ ''mkdir -p /tmp/'' @ name self
        @ '' && cat > /tmp/'' @ name self @ ''/pyproject.toml << '' @ [dq] @ ''EOF'' @ [dq, nl]
        @ pyproject_escaped self @ [nl]
        @ ''EOF'' @ [nl]
        @ ''cat > /tmp/'' @ name self @ ''/script.py << '' @ [dq] @ ''EOF'' @ [dq, nl]
        @ code_escaped code @ [nl]
        @ ''EOF'' @ [nl]
        @ ''cd /tmp/'' @ name self @ ''/ && uv run script.py'' @ [nl, sq])"

text \<open>
  \<open>run_code\<close>: the command goes to the transport with the timeout, and the response is
  mapped into the result. The transport object is shared with the sandbox, so the sandbox
  is returned with the transport as the call has left it.
\<close>

definition run_code ::
  "'t Sandbox \<Rightarrow> string \<Rightarrow> 't option \<Rightarrow> (string \<times> string) list option \<Rightarrow> py_number option
     \<Rightarrow> int option \<Rightarrow> int option \<Rightarrow> string option \<Rightarrow> string option \<Rightarrow> client_reply
     \<Rightarrow> (error + CodeOutput) \<times> 't Sandbox" where
  "run_code self code timeout environment cpus memory processes read_rate write_rate reply =
     (let command =
            run_code_command self code environment cpus memory processes read_rate write_rate
      in case execute_command (remote_connection self) command timeout reply of
           (Inl e, conn) \<Rightarrow> (Inl e, self\<lparr>remote_connection := conn\<rparr>)
         | (Inr result, conn) \<Rightarrow>
             (Inr \<lparr>co_output = stdout result, co_error = stderr result\<rparr>,
              self\<lparr>remote_connection := conn\<rparr>))"


section \<open>The remote shell reading a word\<close>

text \<open>
  The command is read by the shell of the remote host. Of the quoting rules of the POSIX
  shell the model has the ones the command relies on: between single quotes every
  character stands for itself up to the next single quote; outside quotes a single quote
  opens a quoted part, a backslash makes the next character stand for itself (a
  backslash before a newline is dropped with it), and a blank, a newline or an operator
  character ends the word. \<open>sh_word q s\<close> reads one word from \<open>s\<close>, inside quotes when
  \<open>q\<close> holds, and returns the word with the quoting removed and the rest of the input;
  it returns \<open>None\<close> when a quote is left open, and on the expansions and double quotes
  that the model does not cover.
\<close>

definition word_end :: "char \<Rightarrow> bool" where
  "word_end c = (c \<in> set ([CHR 0x20, CHR 0x09, nl] @ ''|&;<>()''))"

definition not_covered :: "char \<Rightarrow> bool" where
  "not_covered c = (c \<in> set ([dq, CHR 0x60] @ ''$''))"

text \<open>\<open>emit xs w\<close> puts the characters \<open>xs\<close> in front of the word of the result \<open>w\<close>.\<close>

definition emit :: "string \<Rightarrow> (string \<times> string) option \<Rightarrow> (string \<times> string) option" where
  "emit xs w = (case w of None \<Rightarrow> None | Some (u, rest) \<Rightarrow> Some (xs @ u, rest))"

fun sh_word :: "bool \<Rightarrow> string \<Rightarrow> (string \<times> string) option" where
  "sh_word True [] = None"
| "sh_word False [] = Some ([], [])"
| "sh_word True (c # cs) =
     (if c = sq then sh_word False cs
      else emit [c] (sh_word True cs))"
| "sh_word False (c # cs) =
     (if c = sq then sh_word True cs
      else if c = bs then
        (case cs of
           [] \<Rightarrow> Some ([bs], [])
         | d # ds \<Rightarrow>
             if d = nl then sh_word False ds
             else emit [d] (sh_word False ds))
      else if word_end c then Some ([], c # cs)
      else if not_covered c then None
      else emit [c] (sh_word False cs))"



text \<open>
  Notation for the statements below: the first line of both templates, with the five
  limit texts in their flag positions.
\<close>

abbreviation docker_flags :: "string \<Rightarrow> string \<Rightarrow> string \<Rightarrow> string \<Rightarrow> string \<Rightarrow> string" where
  "docker_flags p c m r w \<equiv>
     ''docker run --pids-limit '' @ p @ '' --cpus '' @ c @ '' -m '' @ m
     @ ''m --device-read-bps=/dev/sda:'' @ r @ '' --device-write-bps=/dev/sda:'' @ w
     @ '' --rm ghcr.io/astral-sh/uv:alpine /bin/sh -c ''"


text \<open>
  Notation for the statements below: the entry of one dependency in the manifest, its
  name and its version constraints between double quotes after four spaces.
\<close>

abbreviation dependency_entry :: "PyprojectDependency \<Rightarrow> string" where
  "dependency_entry d \<equiv> ''    '' @ [dq] @ dep_name d @ version_constraints d @ [dq]"


section \<open>Values of the test suite\<close>

text \<open>
  The transport, the sandbox, the manifest file and the code of \<open>tests/test_sandbox.py\<close>,
  and a remote side that connects and prints \<open>hello world!\<close>.
\<close>

definition test_conn :: "int SSHConnection" where
  "test_conn = \<lparr>key_file = None, password = ''test'', is_passphrase = False,
                 host = ''0.0.0.0'', port = 22, username = ''test'', client = [],
                 is_connected = False\<rparr>"

definition test_sandbox :: "int Sandbox" where
  "test_sandbox = \<lparr>pyproject = ''hello'', name = ''sandbox-1'', remote_connection = test_conn\<rparr>"

definition test_fs :: filesystem where
  "test_fs = (\<lambda>p. if p = ''testfiles/custom.pyproject.toml'' then Some (File ''hello'')
                   else if p = ''testfiles'' then Some Directory
                   else None)"

definition test_code :: string where
  "test_code = ''print('' @ [sq] @ ''hello world!'' @ [sq] @ '')''"

definition test_reply :: client_reply where
  "test_reply = \<lparr>connect_raises = None, exec_result = Inr (''hello world!'', [])\<rparr>"


section \<open>The transport: credentials and the session\<close>

text \<open>
  C2. The constructor of the transport, for every combination of credentials: a password
  without a passphrase gives password mode, with or without a key file; a passphrase with
  a key file gives key mode, where the passphrase is the secret; a passphrase with a
  password and no key file gives password mode; a passphrase with neither a key file nor
  a password is refused with the \<open>ValueError\<close> that asks for the key file; neither a
  password nor a passphrase is refused with the \<open>ValueError\<close> that asks for one of them.
\<close>

theorem credential_modes:
  "(SSHConnection_init h p u (Some pw) None kf :: error + 't SSHConnection) =
     Inr \<lparr>key_file = None, password = pw, is_passphrase = False,
          host = h, port = p, username = u, client = [], is_connected = False\<rparr>
   \<and> (SSHConnection_init h p u pw' (Some pp) (Some k) :: error + 't SSHConnection) =
     Inr \<lparr>key_file = Some k, password = pp, is_passphrase = True,
          host = h, port = p, username = u, client = [], is_connected = False\<rparr>
   \<and> (SSHConnection_init h p u (Some pw) (Some pp) None :: error + 't SSHConnection) =
     Inr \<lparr>key_file = None, password = pw, is_passphrase = False,
          host = h, port = p, username = u, client = [], is_connected = False\<rparr>
   \<and> (SSHConnection_init h p u None (Some pp) None :: error + 't SSHConnection) =
     Inl (ValueError
       ''If you provide a passhprase, you must also provide the file where the private key is stored'')
   \<and> (SSHConnection_init h p u None None kf :: error + 't SSHConnection) =
     Inl (ValueError ''You must provide one of password and passphrase'')"
  by (simp add: SSHConnection_init_def)

theorem credential_modes_witness:
  "(SSHConnection_init ''0.0.0.0'' 22 ''test'' (Some ''test'') None None :: error + int SSHConnection) =
     Inr test_conn
   \<and> (SSHConnection_init ''0.0.0.0'' 22 ''test'' None (Some ''phrase'') (Some ''id_rsa'')
        :: error + int SSHConnection) =
     Inr \<lparr>key_file = Some ''id_rsa'', password = ''phrase'', is_passphrase = True,
          host = ''0.0.0.0'', port = 22, username = ''test'', client = [], is_connected = False\<rparr>
   \<and> (SSHConnection_init ''0.0.0.0'' 22 ''test'' (Some ''test'') (Some ''phrase'') None
        :: error + int SSHConnection) =
     Inr test_conn
   \<and> (SSHConnection_init ''0.0.0.0'' 22 ''test'' None (Some ''phrase'') None
        :: error + int SSHConnection) =
     Inl (ValueError
       ''If you provide a passhprase, you must also provide the file where the private key is stored'')
   \<and> (SSHConnection_init ''0.0.0.0'' 22 ''test'' None None None :: error + int SSHConnection) =
     Inl (ValueError ''You must provide one of password and passphrase'')"
  using credential_modes [where ?'t = int, of "''0.0.0.0''" 22 "''test''" "''test''" None None
      "''phrase''" "''id_rsa''"]
  by (simp add: test_conn_def)

text \<open>What one call of \<open>execute_command\<close> does, by the state of the transport.\<close>

lemma execute_command_connected:
  "is_connected s \<Longrightarrow>
     execute_command s c t r =
       (case exec_result r of
          Inl msg \<Rightarrow> Inl (SSHException msg)
        | Inr (out, err) \<Rightarrow> Inr \<lparr>stderr = err, stdout = out\<rparr>,
        s\<lparr>client := client s @ [ExecCommand c t]\<rparr>)"
  by (simp add: execute_command_def Let_def split: sum.splits prod.splits)

lemma execute_command_first:
  "\<not> is_connected s \<Longrightarrow> connect_raises r = None \<Longrightarrow>
     execute_command s c t r =
       (case exec_result r of
          Inl msg \<Rightarrow> Inl (SSHException msg)
        | Inr (out, err) \<Rightarrow> Inr \<lparr>stderr = err, stdout = out\<rparr>,
        s\<lparr>client := client s @ [SetMissingHostKeyPolicy, connect_call s, ExecCommand c t],
          is_connected := True\<rparr>)"
  by (simp add: execute_command_def connect_def connect_call_def Let_def
      split: sum.splits prod.splits)

lemma execute_command_connect_raises:
  "\<not> is_connected s \<Longrightarrow> connect_raises r = Some msg \<Longrightarrow>
     execute_command s c t r =
       (Inl (SSHException msg),
        s\<lparr>client := client s @ [SetMissingHostKeyPolicy, connect_call s]\<rparr>)"
  by (simp add: execute_command_def connect_def connect_call_def Let_def)

lemma is_connect_call_connect_call: "is_connect_call (connect_call s)"
  by (simp add: connect_call_def)

lemma execute_commands_connected:
  "is_connected s \<Longrightarrow>
     execute_commands s calls =
       s\<lparr>client := client s @ map (\<lambda>(c, t, r). ExecCommand c t) calls\<rparr>"
proof (induction calls arbitrary: s)
  case Nil
  then show ?case by simp
next
  case (Cons call calls)
  obtain c t r where call: "call = (c, t, r)" by (cases call)
  let ?s = "s\<lparr>client := client s @ [ExecCommand c t]\<rparr>"
  have "execute_commands s (call # calls) = execute_commands ?s calls"
    using Cons.prems by (simp add: call execute_command_connected)
  also have "\<dots> = ?s\<lparr>client := client ?s @ map (\<lambda>(c, t, r). ExecCommand c t) calls\<rparr>"
    using Cons.prems by (intro Cons.IH) simp
  finally show ?case by (simp add: call)
qed

lemma no_connect_in_exec_calls:
  "filter is_connect_call (map (\<lambda>(c, t, r). ExecCommand c t) calls) = []"
  by (induction calls) auto


text \<open>
  C8. Over any sequence of calls of \<open>execute_command\<close> on one transport: a call on an
  unconnected transport whose \<open>connect\<close> returns makes the two calls of \<open>_connect\<close> once,
  before its command, and every later call of the sequence adds its command and nothing
  else, so the sequence holds one more connect call than before; a transport that is connected
  stays connected and only adds the commands; in every single call, whatever the remote
  side answers, the connect call is made exactly when the transport is unconnected; and a
  transport that the constructor returns is unconnected with no call made yet.
\<close>

theorem session_established_once:
  "(\<not> is_connected s \<and> connect_raises r = None \<longrightarrow>
      client (execute_commands s ((c, t, r) # calls)) =
        client s @ [SetMissingHostKeyPolicy, connect_call s, ExecCommand c t]
          @ map (\<lambda>(c, t, r). ExecCommand c t) calls
      \<and> is_connected (execute_commands s ((c, t, r) # calls))
      \<and> length (filter is_connect_call (client (execute_commands s ((c, t, r) # calls)))) =
          length (filter is_connect_call (client s)) + 1)
   \<and> (is_connected s \<longrightarrow>
      client (execute_commands s calls) = client s @ map (\<lambda>(c, t, r). ExecCommand c t) calls
      \<and> is_connected (execute_commands s calls))
   \<and> filter is_connect_call (client (snd (execute_command s c t r))) =
        filter is_connect_call (client s) @ (if is_connected s then [] else [connect_call s])
   \<and> (SSHConnection_init h p u pw pp kf = Inr s \<longrightarrow> \<not> is_connected s \<and> client s = [])"
proof (intro conjI impI)
  assume a: "\<not> is_connected s \<and> connect_raises r = None"
  let ?s = "s\<lparr>client := client s @ [SetMissingHostKeyPolicy, connect_call s, ExecCommand c t],
              is_connected := True\<rparr>"
  have step: "execute_commands s ((c, t, r) # calls) = execute_commands ?s calls"
    using a by (simp add: execute_command_first)
  have rest: "execute_commands ?s calls =
      ?s\<lparr>client := client ?s @ map (\<lambda>(c, t, r). ExecCommand c t) calls\<rparr>"
    by (rule execute_commands_connected) simp
  show "client (execute_commands s ((c, t, r) # calls)) =
        client s @ [SetMissingHostKeyPolicy, connect_call s, ExecCommand c t]
          @ map (\<lambda>(c, t, r). ExecCommand c t) calls"
    unfolding step rest by simp
  show "is_connected (execute_commands s ((c, t, r) # calls))"
    unfolding step rest by simp
  show "length (filter is_connect_call (client (execute_commands s ((c, t, r) # calls)))) =
          length (filter is_connect_call (client s)) + 1"
    unfolding step rest by (simp add: no_connect_in_exec_calls is_connect_call_connect_call)
next
  assume a: "is_connected s"
  show "client (execute_commands s calls) = client s @ map (\<lambda>(c, t, r). ExecCommand c t) calls"
    using a by (simp add: execute_commands_connected)
  show "is_connected (execute_commands s calls)"
    using a by (simp add: execute_commands_connected)
next
  show "filter is_connect_call (client (snd (execute_command s c t r))) =
        filter is_connect_call (client s) @ (if is_connected s then [] else [connect_call s])"
  proof (cases "is_connected s")
    case True
    then show ?thesis by (simp add: execute_command_connected)
  next
    case False
    then show ?thesis
      by (cases "connect_raises r")
         (simp_all add: execute_command_first execute_command_connect_raises
            is_connect_call_connect_call)
  qed
next
  assume "SSHConnection_init h p u pw pp kf = Inr s"
  then show "\<not> is_connected s" and "client s = []"
    by (auto simp: SSHConnection_init_def split: if_splits)
qed

theorem session_established_once_witness:
  "client (execute_commands test_conn
      [(''echo 1'', None, test_reply), (''echo 2'', Some 5, test_reply),
       (''echo 3'', None, test_reply)]) =
     [SetMissingHostKeyPolicy, ConnectPassword ''0.0.0.0'' 22 ''test'' ''test'',
      ExecCommand ''echo 1'' None, ExecCommand ''echo 2'' (Some 5), ExecCommand ''echo 3'' None]
   \<and> length (filter is_connect_call (client (execute_commands test_conn
      [(''echo 1'', None, test_reply), (''echo 2'', Some 5, test_reply),
       (''echo 3'', None, test_reply)]))) = 1"
  using session_established_once [of test_conn test_reply "''echo 1''" None
      "[(''echo 2'', Some 5, test_reply), (''echo 3'', None, test_reply)]"]
  by (simp add: test_conn_def test_reply_def connect_call_def)

section \<open>The orchestrator: construction\<close>

text \<open>
  C3. The constructor of the sandbox takes exactly one of a manifest object and a path:
  with neither it raises \<open>ValueError\<close>, with both it raises \<open>ValueError\<close>, with a path
  that does not exist or is not a regular file it raises \<open>ValueError\<close>; with a manifest
  object alone the stored text is the text that \<open>to_str\<close> renders, and with the path of a
  regular file alone the stored text is the contents of that file.
\<close>

theorem manifest_source_exactly_one:
  "(Sandbox_init fs n conn None None :: error + 't Sandbox) =
     Inl (ValueError
       ''You need to provide either a configuration or the path to a pyproject file'')
   \<and> (Sandbox_init fs n conn (Some config) (Some path) :: error + 't Sandbox) =
     Inl (ValueError
       ''You can provide either a configuration or the path to a pyproject file, not both'')
   \<and> (\<not> path_exists fs path \<or> \<not> path_is_file fs path \<longrightarrow>
        Sandbox_init fs n conn None (Some path) =
          Inl (ValueError ''The provided path either does not exist or is not a file''))
   \<and> Sandbox_init fs n conn (Some config) None =
     Inr \<lparr>pyproject = to_str config, name = n, remote_connection = conn\<rparr>
   \<and> (fs path = Some (File content) \<longrightarrow>
        Sandbox_init fs n conn None (Some path) =
          Inr \<lparr>pyproject = content, name = n, remote_connection = conn\<rparr>)"
  by (simp add: Sandbox_init_def path_exists_def path_is_file_def read_file_def)

theorem manifest_source_exactly_one_witness:
  "Sandbox_init test_fs ''sandbox-1'' test_conn None (Some ''non-existing.toml'') =
     Inl (ValueError ''The provided path either does not exist or is not a file'')
   \<and> Sandbox_init test_fs ''sandbox-1'' test_conn None (Some ''testfiles'') =
     Inl (ValueError ''The provided path either does not exist or is not a file'')
   \<and> Sandbox_init test_fs ''sandbox-1'' test_conn None (Some ''testfiles/custom.pyproject.toml'') =
     Inr test_sandbox
   \<and> Sandbox_init test_fs ''sandbox-1'' test_conn None None =
     Inl (ValueError
       ''You need to provide either a configuration or the path to a pyproject file'')"
proof -
  have missing: "\<not> path_exists test_fs ''non-existing.toml''
      \<or> \<not> path_is_file test_fs ''non-existing.toml''"
    by (simp add: path_exists_def test_fs_def)
  have dir: "\<not> path_exists test_fs ''testfiles'' \<or> \<not> path_is_file test_fs ''testfiles''"
    by (simp add: path_is_file_def test_fs_def)
  have regular: "test_fs ''testfiles/custom.pyproject.toml'' = Some (File ''hello'')"
    by (simp add: test_fs_def)
  show ?thesis
    using missing dir regular
      manifest_source_exactly_one [where ?'t = int, of test_fs "''sandbox-1''" test_conn
        undefined "''non-existing.toml''" undefined]
      manifest_source_exactly_one [where ?'t = int, of test_fs "''sandbox-1''" test_conn
        undefined "''testfiles''" undefined]
      manifest_source_exactly_one [where ?'t = int, of test_fs "''sandbox-1''" test_conn
        undefined "''testfiles/custom.pyproject.toml''" "''hello''"]
    by (simp add: test_sandbox_def)
qed


section \<open>The orchestrator: delegation to the transport\<close>

text \<open>
  C7. Every call of \<open>run_code\<close> hands the assembled command and the caller's timeout,
  as they are, to \<open>execute_command\<close> of its transport: the result of \<open>run_code\<close> is the
  result of that call with \<open>stdout\<close> under \<open>output\<close> and \<open>stderr\<close> under \<open>error\<close>, an
  exception of the transport passing through, and the transport is left as that call
  leaves it. When the session is there or can be made, the last call on the client is
  the command with that timeout, and when the remote side answers with a standard output
  and a standard error, the result holds exactly these two texts.
\<close>

theorem run_code_delegates_and_maps:
  "fst (run_code self code timeout environment cpus memory processes read_rate write_rate reply) =
     map_sum id (\<lambda>r. \<lparr>co_output = stdout r, co_error = stderr r\<rparr>)
       (fst (execute_command (remote_connection self)
          (run_code_command self code environment cpus memory processes read_rate write_rate)
          timeout reply))
   \<and> remote_connection
       (snd (run_code self code timeout environment cpus memory processes read_rate write_rate reply)) =
     snd (execute_command (remote_connection self)
       (run_code_command self code environment cpus memory processes read_rate write_rate)
       timeout reply)
   \<and> (is_connected (remote_connection self) \<or> connect_raises reply = None \<longrightarrow>
        client (remote_connection
          (snd (run_code self code timeout environment cpus memory processes read_rate write_rate reply))) =
        client (remote_connection self)
        @ (if is_connected (remote_connection self) then []
           else [SetMissingHostKeyPolicy, connect_call (remote_connection self)])
        @ [ExecCommand
             (run_code_command self code environment cpus memory processes read_rate write_rate)
             timeout])
   \<and> ((is_connected (remote_connection self) \<or> connect_raises reply = None)
        \<and> exec_result reply = Inr (out, err) \<longrightarrow>
        fst (run_code self code timeout environment cpus memory processes read_rate write_rate reply) =
          Inr \<lparr>co_output = out, co_error = err\<rparr>)"
proof -
  let ?cmd = "run_code_command self code environment cpus memory processes read_rate write_rate"
  let ?run = "run_code self code timeout environment cpus memory processes read_rate write_rate reply"
  let ?exe = "execute_command (remote_connection self) ?cmd timeout reply"
  have res: "fst ?run = map_sum id (\<lambda>r. \<lparr>co_output = stdout r, co_error = stderr r\<rparr>) (fst ?exe)"
    by (simp add: run_code_def Let_def split: prod.splits sum.splits)
  have conn: "remote_connection (snd ?run) = snd ?exe"
    by (simp add: run_code_def Let_def split: prod.splits sum.splits)
  have log: "client (snd ?exe) =
      client (remote_connection self)
      @ (if is_connected (remote_connection self) then []
         else [SetMissingHostKeyPolicy, connect_call (remote_connection self)])
      @ [ExecCommand ?cmd timeout]"
    if "is_connected (remote_connection self) \<or> connect_raises reply = None"
    using that
    by (cases "is_connected (remote_connection self)")
       (simp_all add: execute_command_connected execute_command_first)
  have out: "fst ?exe = Inr \<lparr>stderr = err, stdout = out\<rparr>"
    if "is_connected (remote_connection self) \<or> connect_raises reply = None"
      and "exec_result reply = Inr (out, err)"
    using that
    by (cases "is_connected (remote_connection self)")
       (simp_all add: execute_command_connected execute_command_first)
  show ?thesis
    using res conn log out by simp
qed

theorem run_code_delegates_and_maps_witness:
  "fst (run_code test_sandbox test_code (Some 30) None None None None None None test_reply) =
     Inr \<lparr>co_output = ''hello world!'', co_error = []\<rparr>
   \<and> client (remote_connection
         (snd (run_code test_sandbox test_code (Some 30) None None None None None None test_reply))) =
     [SetMissingHostKeyPolicy, ConnectPassword ''0.0.0.0'' 22 ''test'' ''test'',
      ExecCommand (run_code_command test_sandbox test_code None None None None None None)
        (Some 30)]"
proof -
  have conn: "remote_connection test_sandbox = test_conn"
    by (simp add: test_sandbox_def)
  have pre: "is_connected (remote_connection test_sandbox) \<or> connect_raises test_reply = None"
    by (simp add: test_reply_def)
  have rep: "exec_result test_reply = Inr (''hello world!'', [])"
    by (simp add: test_reply_def)
  note inst = run_code_delegates_and_maps [of test_sandbox test_code "Some 30" None None None
      None None None test_reply "''hello world!''" "[]"]
  let ?run = "run_code test_sandbox test_code (Some 30) None None None None None None test_reply"
  from inst pre rep have r: "fst ?run = Inr \<lparr>co_output = ''hello world!'', co_error = []\<rparr>"
    by blast
  from inst pre have "client (remote_connection (snd ?run)) =
      client (remote_connection test_sandbox)
      @ (if is_connected (remote_connection test_sandbox) then []
         else [SetMissingHostKeyPolicy, connect_call (remote_connection test_sandbox)])
      @ [ExecCommand (run_code_command test_sandbox test_code None None None None None None)
           (Some 30)]"
    by blast
  then have c: "client (remote_connection (snd ?run)) =
      [SetMissingHostKeyPolicy, ConnectPassword ''0.0.0.0'' 22 ''test'' ''test'',
       ExecCommand (run_code_command test_sandbox test_code None None None None None None)
         (Some 30)]"
    by (simp add: conn test_conn_def connect_call_def)
  from r c show ?thesis by (rule conjI)
qed


section \<open>The orchestrator: resource limits in the command\<close>

text \<open>Both templates begin with the same line, filled with the limits after the defaults.\<close>

lemma run_code_command_flags:
  "\<exists>rest. run_code_command self code environment cpus memory processes read_rate write_rate =
     docker_flags (str_int (processes_limit processes)) (py_str (cpu_limit cpus))
       (str_int (memory_limit memory)) (read_rate_limit read_rate)
       (write_rate_limit write_rate) @ rest"
  by (simp add: run_code_command_def Let_def)

lemma str_int_100: "str_int 100 = ''100''" by code_simp
lemma str_int_512: "str_int 512 = ''512''" by code_simp
lemma str_int_1: "str_int 1 = ''1''" by code_simp
lemma str_int_10: "str_int 10 = ''10''" by code_simp

text \<open>
  C4. When \<open>run_code\<close> is called without a resource option, the command has the
  documented default in the position of that option, whatever the other arguments are:
  \<open>--pids-limit 100\<close> without \<open>processes\<close>, \<open>--cpus 1\<close> without \<open>cpus\<close>, \<open>-m 512m\<close>
  without \<open>memory\<close>, \<open>--device-read-bps=/dev/sda:10mb\<close> without \<open>read_rate\<close> and
  \<open>--device-write-bps=/dev/sda:10mb\<close> without \<open>write_rate\<close>; without any of them the
  command begins with the line of the five defaults.
\<close>

theorem omitted_options_default:
  "(\<exists>rest. run_code_command self code environment cpus memory None read_rate write_rate =
      docker_flags ''100'' (py_str (cpu_limit cpus)) (str_int (memory_limit memory))
        (read_rate_limit read_rate) (write_rate_limit write_rate) @ rest)
   \<and> (\<exists>rest. run_code_command self code environment None memory processes read_rate write_rate =
      docker_flags (str_int (processes_limit processes)) ''1'' (str_int (memory_limit memory))
        (read_rate_limit read_rate) (write_rate_limit write_rate) @ rest)
   \<and> (\<exists>rest. run_code_command self code environment cpus None processes read_rate write_rate =
      docker_flags (str_int (processes_limit processes)) (py_str (cpu_limit cpus)) ''512''
        (read_rate_limit read_rate) (write_rate_limit write_rate) @ rest)
   \<and> (\<exists>rest. run_code_command self code environment cpus memory processes None write_rate =
      docker_flags (str_int (processes_limit processes)) (py_str (cpu_limit cpus))
        (str_int (memory_limit memory)) ''10mb'' (write_rate_limit write_rate) @ rest)
   \<and> (\<exists>rest. run_code_command self code environment cpus memory processes read_rate None =
      docker_flags (str_int (processes_limit processes)) (py_str (cpu_limit cpus))
        (str_int (memory_limit memory)) (read_rate_limit read_rate) ''10mb'' @ rest)
   \<and> (\<exists>rest. run_code_command self code environment None None None None None =
      ''docker run --pids-limit 100 --cpus 1 -m 512m --device-read-bps=/dev/sda:10mb --device-write-bps=/dev/sda:10mb --rm ghcr.io/astral-sh/uv:alpine /bin/sh -c '' @ rest)"
proof -
  have p: "str_int (processes_limit None) = ''100''"
    by (simp add: processes_limit_def py_or_def str_int_100)
  have c: "py_str (cpu_limit None) = ''1''"
    by (simp add: cpu_limit_def py_or_def str_int_1)
  have m: "str_int (memory_limit None) = ''512''"
    by (simp add: memory_limit_def py_or_def str_int_512)
  have r: "read_rate_limit None = ''10mb''"
    by (simp add: read_rate_limit_def py_or_def)
  have w: "write_rate_limit None = ''10mb''"
    by (simp add: write_rate_limit_def py_or_def)
  show ?thesis
    using run_code_command_flags [of self code environment cpus memory None read_rate write_rate]
      run_code_command_flags [of self code environment None memory processes read_rate write_rate]
      run_code_command_flags [of self code environment cpus None processes read_rate write_rate]
      run_code_command_flags [of self code environment cpus memory processes None write_rate]
      run_code_command_flags [of self code environment cpus memory processes read_rate None]
      run_code_command_flags [of self code environment None None None None None]
    unfolding p c m r w by simp
qed

theorem omitted_options_default_witness:
  "\<exists>rest. run_code_command test_sandbox test_code None None None None None None =
      ''docker run --pids-limit 100 --cpus 1 -m 512m --device-read-bps=/dev/sda:10mb --device-write-bps=/dev/sda:10mb --rm ghcr.io/astral-sh/uv:alpine /bin/sh -c '' @ rest"
  using omitted_options_default [of test_sandbox test_code None None None None None None]
  by blast

text \<open>
  C5, as the code has it. A resource option that the caller supplies stands in its flag
  position as it is, provided it is true in the sense of Python: a number other than
  zero, a rate string that is not empty. A supplied value that is false is taken as
  absent and gives the default: \<open>processes=0\<close> gives \<open>--pids-limit 100\<close>, \<open>cpus\<close> equal
  to \<open>0\<close>, \<open>0.0\<close> or \<open>-0.0\<close> gives \<open>--cpus 1\<close>, \<open>memory=0\<close> gives \<open>-m 512m\<close>, and an
  empty rate string gives \<open>10mb\<close>; all this whatever the other arguments are.
\<close>

theorem supplied_options_verbatim:
  "(p \<noteq> 0 \<longrightarrow>
      (\<exists>rest. run_code_command self code environment cpus memory (Some p) read_rate write_rate =
         docker_flags (str_int p) (py_str (cpu_limit cpus)) (str_int (memory_limit memory))
           (read_rate_limit read_rate) (write_rate_limit write_rate) @ rest))
   \<and> (truthy c \<longrightarrow>
      (\<exists>rest. run_code_command self code environment (Some c) memory processes read_rate write_rate =
         docker_flags (str_int (processes_limit processes)) (py_str c)
           (str_int (memory_limit memory)) (read_rate_limit read_rate)
           (write_rate_limit write_rate) @ rest))
   \<and> (m \<noteq> 0 \<longrightarrow>
      (\<exists>rest. run_code_command self code environment cpus (Some m) processes read_rate write_rate =
         docker_flags (str_int (processes_limit processes)) (py_str (cpu_limit cpus)) (str_int m)
           (read_rate_limit read_rate) (write_rate_limit write_rate) @ rest))
   \<and> (r \<noteq> [] \<longrightarrow>
      (\<exists>rest. run_code_command self code environment cpus memory processes (Some r) write_rate =
         docker_flags (str_int (processes_limit processes)) (py_str (cpu_limit cpus))
           (str_int (memory_limit memory)) r (write_rate_limit write_rate) @ rest))
   \<and> (w \<noteq> [] \<longrightarrow>
      (\<exists>rest. run_code_command self code environment cpus memory processes read_rate (Some w) =
         docker_flags (str_int (processes_limit processes)) (py_str (cpu_limit cpus))
           (str_int (memory_limit memory)) (read_rate_limit read_rate) w @ rest))
   \<and> (\<exists>rest. run_code_command self code environment cpus memory (Some 0) read_rate write_rate =
         docker_flags ''100'' (py_str (cpu_limit cpus)) (str_int (memory_limit memory))
           (read_rate_limit read_rate) (write_rate_limit write_rate) @ rest)
   \<and> (\<not> truthy z \<longrightarrow>
      (\<exists>rest. run_code_command self code environment (Some z) memory processes read_rate write_rate =
         docker_flags (str_int (processes_limit processes)) ''1''
           (str_int (memory_limit memory)) (read_rate_limit read_rate)
           (write_rate_limit write_rate) @ rest))
   \<and> (\<exists>rest. run_code_command self code environment cpus (Some 0) processes read_rate write_rate =
         docker_flags (str_int (processes_limit processes)) (py_str (cpu_limit cpus)) ''512''
           (read_rate_limit read_rate) (write_rate_limit write_rate) @ rest)
   \<and> (\<exists>rest. run_code_command self code environment cpus memory processes (Some []) write_rate =
         docker_flags (str_int (processes_limit processes)) (py_str (cpu_limit cpus))
           (str_int (memory_limit memory)) ''10mb'' (write_rate_limit write_rate) @ rest)
   \<and> (\<exists>rest. run_code_command self code environment cpus memory processes read_rate (Some []) =
         docker_flags (str_int (processes_limit processes)) (py_str (cpu_limit cpus))
           (str_int (memory_limit memory)) (read_rate_limit read_rate) ''10mb'' @ rest)
   \<and> \<not> truthy (PyInt 0) \<and> \<not> truthy (PyFloat ''0.0'') \<and> \<not> truthy (PyFloat ''-0.0'')"
proof (intro conjI impI)
  assume "p \<noteq> 0"
  then have "processes_limit (Some p) = p"
    by (simp add: processes_limit_def py_or_def)
  then show "\<exists>rest. run_code_command self code environment cpus memory (Some p) read_rate write_rate =
         docker_flags (str_int p) (py_str (cpu_limit cpus)) (str_int (memory_limit memory))
           (read_rate_limit read_rate) (write_rate_limit write_rate) @ rest"
    using run_code_command_flags [of self code environment cpus memory "Some p" read_rate write_rate]
    by simp
next
  assume "truthy c"
  then have "cpu_limit (Some c) = c"
    by (simp add: cpu_limit_def py_or_def)
  then show "\<exists>rest. run_code_command self code environment (Some c) memory processes read_rate write_rate =
         docker_flags (str_int (processes_limit processes)) (py_str c)
           (str_int (memory_limit memory)) (read_rate_limit read_rate)
           (write_rate_limit write_rate) @ rest"
    using run_code_command_flags [of self code environment "Some c" memory processes read_rate write_rate]
    by simp
next
  assume "m \<noteq> 0"
  then have "memory_limit (Some m) = m"
    by (simp add: memory_limit_def py_or_def)
  then show "\<exists>rest. run_code_command self code environment cpus (Some m) processes read_rate write_rate =
         docker_flags (str_int (processes_limit processes)) (py_str (cpu_limit cpus)) (str_int m)
           (read_rate_limit read_rate) (write_rate_limit write_rate) @ rest"
    using run_code_command_flags [of self code environment cpus "Some m" processes read_rate write_rate]
    by simp
next
  assume "r \<noteq> []"
  then have "read_rate_limit (Some r) = r"
    by (simp add: read_rate_limit_def py_or_def)
  then show "\<exists>rest. run_code_command self code environment cpus memory processes (Some r) write_rate =
         docker_flags (str_int (processes_limit processes)) (py_str (cpu_limit cpus))
           (str_int (memory_limit memory)) r (write_rate_limit write_rate) @ rest"
    using run_code_command_flags [of self code environment cpus memory processes "Some r" write_rate]
    by simp
next
  assume "w \<noteq> []"
  then have "write_rate_limit (Some w) = w"
    by (simp add: write_rate_limit_def py_or_def)
  then show "\<exists>rest. run_code_command self code environment cpus memory processes read_rate (Some w) =
         docker_flags (str_int (processes_limit processes)) (py_str (cpu_limit cpus))
           (str_int (memory_limit memory)) (read_rate_limit read_rate) w @ rest"
    using run_code_command_flags [of self code environment cpus memory processes read_rate "Some w"]
    by simp
next
  have "str_int (processes_limit (Some 0)) = ''100''"
    by (simp add: processes_limit_def py_or_def str_int_100)
  then show "\<exists>rest. run_code_command self code environment cpus memory (Some 0) read_rate write_rate =
         docker_flags ''100'' (py_str (cpu_limit cpus)) (str_int (memory_limit memory))
           (read_rate_limit read_rate) (write_rate_limit write_rate) @ rest"
    using run_code_command_flags [of self code environment cpus memory "Some 0" read_rate write_rate]
    by simp
next
  assume "\<not> truthy z"
  then have "py_str (cpu_limit (Some z)) = ''1''"
    by (simp add: cpu_limit_def py_or_def str_int_1)
  then show "\<exists>rest. run_code_command self code environment (Some z) memory processes read_rate write_rate =
         docker_flags (str_int (processes_limit processes)) ''1''
           (str_int (memory_limit memory)) (read_rate_limit read_rate)
           (write_rate_limit write_rate) @ rest"
    using run_code_command_flags [of self code environment "Some z" memory processes read_rate write_rate]
    by simp
next
  have "str_int (memory_limit (Some 0)) = ''512''"
    by (simp add: memory_limit_def py_or_def str_int_512)
  then show "\<exists>rest. run_code_command self code environment cpus (Some 0) processes read_rate write_rate =
         docker_flags (str_int (processes_limit processes)) (py_str (cpu_limit cpus)) ''512''
           (read_rate_limit read_rate) (write_rate_limit write_rate) @ rest"
    using run_code_command_flags [of self code environment cpus "Some 0" processes read_rate write_rate]
    by simp
next
  have "read_rate_limit (Some []) = ''10mb''"
    by (simp add: read_rate_limit_def py_or_def)
  then show "\<exists>rest. run_code_command self code environment cpus memory processes (Some []) write_rate =
         docker_flags (str_int (processes_limit processes)) (py_str (cpu_limit cpus))
           (str_int (memory_limit memory)) ''10mb'' (write_rate_limit write_rate) @ rest"
    using run_code_command_flags [of self code environment cpus memory processes "Some []" write_rate]
    by simp
next
  have "write_rate_limit (Some []) = ''10mb''"
    by (simp add: write_rate_limit_def py_or_def)
  then show "\<exists>rest. run_code_command self code environment cpus memory processes read_rate (Some []) =
         docker_flags (str_int (processes_limit processes)) (py_str (cpu_limit cpus))
           (str_int (memory_limit memory)) (read_rate_limit read_rate) ''10mb'' @ rest"
    using run_code_command_flags [of self code environment cpus memory processes read_rate "Some []"]
    by simp
next
  show "\<not> truthy (PyInt 0)" by simp
  show "\<not> truthy (PyFloat ''0.0'')" by simp
  show "\<not> truthy (PyFloat ''-0.0'')" by simp
qed

theorem supplied_options_verbatim_witness:
  "(\<exists>rest. run_code_command test_sandbox test_code
       (Some [(''OPENAI_API_KEY'', ''test-key''), (''PYTHONBUFFERED'', ''1'')])
       (Some (PyFloat ''1.5'')) (Some 100) (Some 10) (Some ''1mb'') (Some ''2mb'') =
     ''docker run --pids-limit 10 --cpus 1.5 -m 100m --device-read-bps=/dev/sda:1mb --device-write-bps=/dev/sda:2mb --rm ghcr.io/astral-sh/uv:alpine /bin/sh -c '' @ rest)
   \<and> (\<exists>rest. run_code_command test_sandbox test_code None
       (Some (PyFloat ''0.0'')) (Some 100) (Some 10) (Some ''1mb'') (Some ''2mb'') =
     ''docker run --pids-limit 10 --cpus 1 -m 100m --device-read-bps=/dev/sda:1mb --device-write-bps=/dev/sda:2mb --rm ghcr.io/astral-sh/uv:alpine /bin/sh -c '' @ rest)"
proof -
  let ?env = "Some [(''OPENAI_API_KEY'', ''test-key''), (''PYTHONBUFFERED'', ''1'')]"
  let ?cmd = "run_code_command test_sandbox test_code ?env
       (Some (PyFloat ''1.5'')) (Some 100) (Some 10) (Some ''1mb'') (Some ''2mb'')"
  have h: "(10::int) \<noteq> 0" "truthy (PyFloat ''1.5'')" "(100::int) \<noteq> 0"
      "''1mb'' \<noteq> []" "''2mb'' \<noteq> []"
    by simp_all
  have f: "\<not> truthy (PyFloat ''0.0'')" by simp
  note inst = supplied_options_verbatim [of 10 test_sandbox test_code ?env
      "Some (PyFloat ''1.5'')" "Some 100" "Some ''1mb''" "Some ''2mb''" "PyFloat ''1.5''"
      "Some 10" 100 "''1mb''" "''2mb''" "PyFloat ''0.0''"]
  note inst0 = supplied_options_verbatim [of 10 test_sandbox test_code None
      "Some (PyFloat ''0.0'')" "Some 100" "Some ''1mb''" "Some ''2mb''" "PyFloat ''1.5''"
      "Some 10" 100 "''1mb''" "''2mb''" "PyFloat ''0.0''"]
  from inst h(1) have p: "\<exists>rest. ?cmd =
      docker_flags (str_int 10) (py_str (cpu_limit (Some (PyFloat ''1.5''))))
        (str_int (memory_limit (Some 100))) (read_rate_limit (Some ''1mb''))
        (write_rate_limit (Some ''2mb'')) @ rest"
    by blast
  from inst h(2) have c: "\<exists>rest. ?cmd =
      docker_flags (str_int (processes_limit (Some 10))) (py_str (PyFloat ''1.5''))
        (str_int (memory_limit (Some 100))) (read_rate_limit (Some ''1mb''))
        (write_rate_limit (Some ''2mb'')) @ rest"
    by blast
  from inst h(3) have m: "\<exists>rest. ?cmd =
      docker_flags (str_int (processes_limit (Some 10)))
        (py_str (cpu_limit (Some (PyFloat ''1.5'')))) (str_int 100)
        (read_rate_limit (Some ''1mb'')) (write_rate_limit (Some ''2mb'')) @ rest"
    by blast
  from inst h(4) have r: "\<exists>rest. ?cmd =
      docker_flags (str_int (processes_limit (Some 10)))
        (py_str (cpu_limit (Some (PyFloat ''1.5'')))) (str_int (memory_limit (Some 100)))
        ''1mb'' (write_rate_limit (Some ''2mb'')) @ rest"
    by blast
  from inst h(5) have w: "\<exists>rest. ?cmd =
      docker_flags (str_int (processes_limit (Some 10)))
        (py_str (cpu_limit (Some (PyFloat ''1.5'')))) (str_int (memory_limit (Some 100)))
        (read_rate_limit (Some ''1mb'')) ''2mb'' @ rest"
    by blast
  from p c m r w have supplied: "\<exists>rest. ?cmd =
     ''docker run --pids-limit 10 --cpus 1.5 -m 100m --device-read-bps=/dev/sda:1mb --device-write-bps=/dev/sda:2mb --rm ghcr.io/astral-sh/uv:alpine /bin/sh -c '' @ rest"
    by (simp add: cpu_limit_def memory_limit_def processes_limit_def read_rate_limit_def
        write_rate_limit_def py_or_def str_int_10 str_int_100)
  from inst0 f have "\<exists>rest. run_code_command test_sandbox test_code None
       (Some (PyFloat ''0.0'')) (Some 100) (Some 10) (Some ''1mb'') (Some ''2mb'') =
      docker_flags (str_int (processes_limit (Some 10))) ''1''
        (str_int (memory_limit (Some 100))) (read_rate_limit (Some ''1mb''))
        (write_rate_limit (Some ''2mb'')) @ rest"
    by blast
  then have zero: "\<exists>rest. run_code_command test_sandbox test_code None
       (Some (PyFloat ''0.0'')) (Some 100) (Some 10) (Some ''1mb'') (Some ''2mb'') =
     ''docker run --pids-limit 10 --cpus 1 -m 100m --device-read-bps=/dev/sda:1mb --device-write-bps=/dev/sda:2mb --rm ghcr.io/astral-sh/uv:alpine /bin/sh -c '' @ rest"
    by (simp add: memory_limit_def processes_limit_def read_rate_limit_def
        write_rate_limit_def py_or_def str_int_10 str_int_100)
  from supplied zero show ?thesis by (rule conjI)
qed

text \<open>
  C5 as it is written fails for a supplied value that is false: with \<open>memory=0\<close> the
  command has \<open>-m 512m\<close> and no \<open>-m 0m\<close>.
\<close>

theorem supplied_zero_memory_replaced:
  "prefix ''docker run --pids-limit 100 --cpus 1 -m 512m --device-read-bps''
     (run_code_command test_sandbox test_code None None (Some 0) None None None)
   \<and> \<not> sublist ''-m 0m''
     (run_code_command test_sandbox test_code None None (Some 0) None None None)"
  by (simp add: run_code_command_def test_sandbox_def test_code_def processes_limit_def
      cpu_limit_def memory_limit_def read_rate_limit_def write_rate_limit_def py_or_def
      str_int_100 str_int_512 str_int_1 pyproject_escaped_def code_escaped_def replace_def
      sq_def bs_def dq_def nl_def sublist_Cons_right)


section \<open>The orchestrator: the environment exports\<close>

text \<open>
  Where a text can occur in a concatenation: a character that the text does not have
  separates the search, and the replacement of single quotes brings no occurrence in.
\<close>

lemma sublist_sep:
  "c \<notin> set p \<Longrightarrow> sublist p (xs @ c # ys) \<longleftrightarrow> sublist p xs \<or> sublist p ys"
proof
  assume c: "c \<notin> set p" and s: "sublist p (xs @ c # ys)"
  from s consider "sublist p xs" | "sublist p (c # ys)"
    | p1 p2 where "p = p1 @ p2" "suffix p1 xs" "prefix p2 (c # ys)"
    by (auto simp: sublist_append)
  then show "sublist p xs \<or> sublist p ys"
  proof cases
    case 1
    then show ?thesis by simp
  next
    case 2
    then show ?thesis using c by (cases p) (auto simp: sublist_Cons_right)
  next
    case 3
    then show ?thesis using c by (cases p2) (auto simp: prefix_Cons)
  qed
next
  assume "sublist p xs \<or> sublist p ys"
  then show "sublist p (xs @ c # ys)"
    by (auto simp: sublist_append sublist_Cons_right)
qed

lemma sublist_skip:
  "set xs \<inter> set p = {} \<Longrightarrow> p \<noteq> [] \<Longrightarrow> sublist p (xs @ ys) \<longleftrightarrow> sublist p ys"
proof (induction xs)
  case Nil
  then show ?case by simp
next
  case (Cons x xs)
  then have "x \<notin> set p" by auto
  from sublist_sep [OF this, of "[]" "xs @ ys"] Cons show ?case by simp
qed

lemma prefix_replace:
  "c \<notin> set p \<Longrightarrow> set new \<inter> set p = {} \<Longrightarrow> new \<noteq> [] \<Longrightarrow>
     prefix p (replace s c new) \<Longrightarrow> prefix p s"
proof (induction s arbitrary: p)
  case Nil
  then show ?case by (simp add: replace_def)
next
  case (Cons x s)
  show ?case
  proof (cases p)
    case Nil
    then show ?thesis by simp
  next
    case p: (Cons y p')
    show ?thesis
    proof (cases "x = c")
      case True
      with Cons.prems p show ?thesis
        by (cases new) (auto simp: replace_def)
    next
      case False
      with Cons.prems p have "y = x" and pre: "prefix p' (replace s c new)"
        by (auto simp: replace_def)
      from Cons.prems p have "c \<notin> set p'" "set new \<inter> set p' = {}" by auto
      from Cons.IH [OF this Cons.prems(3) pre] \<open>y = x\<close> p show ?thesis by simp
    qed
  qed
qed

lemma sublist_replace:
  "c \<notin> set p \<Longrightarrow> set new \<inter> set p = {} \<Longrightarrow> new \<noteq> [] \<Longrightarrow>
     sublist p (replace s c new) \<Longrightarrow> sublist p s"
proof (induction s)
  case Nil
  then show ?case by (simp add: replace_def)
next
  case (Cons x s)
  have step: "replace (x # s) c new = (if x = c then new else [x]) @ replace s c new"
    by (simp add: replace_def)
  show ?case
  proof (cases "p = []")
    case True
    then show ?thesis by simp
  next
    case nonempty: False
    show ?thesis
    proof (cases "x = c")
      case True
      from Cons.prems(4) have "sublist p (new @ replace s c new)"
        unfolding step using True by simp
      then have "sublist p (replace s c new)"
        using sublist_skip [OF Cons.prems(2) nonempty] by simp
      with Cons have "sublist p s" by blast
      then show ?thesis by (simp add: sublist_Cons_right)
    next
      case False
      from Cons.prems(4) have "sublist p (x # replace s c new)"
        unfolding step using False by simp
      then have "prefix p (x # replace s c new) \<or> sublist p (replace s c new)"
        by (simp only: sublist_Cons_right)
      then have "prefix p (replace (x # s) c new) \<or> sublist p (replace s c new)"
        unfolding step using False by simp
      then show ?thesis
      proof
        assume "prefix p (replace (x # s) c new)"
        from prefix_replace [OF Cons.prems(1,2,3) this] show ?thesis by simp
      next
        assume "sublist p (replace s c new)"
        with Cons have "sublist p s" by blast
        then show ?thesis by (simp add: sublist_Cons_right)
      qed
    qed
  qed
qed

lemma digit_chars: "list_all (\<lambda>d. digit_char d \<in> set ''0123456789'') [0..<10]"
  by code_simp

lemma digit_char_in:
  assumes "d < 10"
  shows "digit_char d \<in> set ''0123456789''"
proof -
  from assms have "d \<in> set [0..<10]" by simp
  with digit_chars show ?thesis
    unfolding list_all_iff by blast
qed

lemma set_str_nat: "set (str_nat n) \<subseteq> set ''0123456789''"
proof (induction n rule: str_nat.induct)
  case (1 n)
  show ?case
  proof (cases "n < 10")
    case True
    then have "str_nat n = [digit_char n]" by (subst str_nat.simps) simp
    with digit_char_in [OF True] show ?thesis by simp
  next
    case False
    then have eq: "str_nat n = str_nat (n div 10) @ [digit_char (n mod 10)]"
      by (subst str_nat.simps) simp
    have "n mod 10 < 10" by simp
    from digit_char_in [OF this] "1" [OF False] show ?thesis
      unfolding eq by simp
  qed
qed

lemma e_not_in_str_int: "CHR ''e'' \<notin> set (str_int i)"
proof -
  have d: "CHR ''e'' \<notin> set ''0123456789''" by simp
  have "CHR ''e'' \<notin> set (str_nat n)" for n
    using set_str_nat [of n] d by blast
  then show ?thesis by (simp add: str_int_def)
qed

lemma no_export_in_str_int: "\<not> sublist ''export'' (str_int i)"
proof
  assume "sublist ''export'' (str_int i)"
  then have "set ''export'' \<subseteq> set (str_int i)" by (rule set_mono_sublist)
  then have "CHR ''e'' \<in> set (str_int i)" by simp
  with e_not_in_str_int show False by blast
qed


lemma export_sep:
  "c \<notin> set ''export'' \<Longrightarrow>
     sublist ''export'' (xs @ c # ys) \<longleftrightarrow> sublist ''export'' xs \<or> sublist ''export'' ys"
  by (rule sublist_sep)

lemma no_export_in_escaped:
  "\<not> sublist ''export'' s \<Longrightarrow> \<not> sublist ''export'' (replace s sq [sq, bs, sq, sq])"
proof
  assume n: "\<not> sublist ''export'' s" and r: "sublist ''export'' (replace s sq [sq, bs, sq, sq])"
  have "sublist ''export'' s"
    by (rule sublist_replace [OF _ _ _ r]) (simp_all add: sq_def bs_def)
  with n show False by blast
qed

lemma run_code_command_without_environment:
  assumes "environment = None \<or> environment = Some []"
  shows "run_code_command self code environment cpus memory processes read_rate write_rate =
     docker_flags (str_int (processes_limit processes)) (py_str (cpu_limit cpus))
       (str_int (memory_limit memory)) (read_rate_limit read_rate)
       (write_rate_limit write_rate)
     @ [sq, nl] @ ''mkdir -p /tmp/'' @ name self
     @ '' && cat > /tmp/'' @ name self @ ''/pyproject.toml << '' @ [dq] @ ''EOF'' @ [dq, nl]
     @ pyproject_escaped self @ [nl] @ ''EOF'' @ [nl]
     @ ''cat > /tmp/'' @ name self @ ''/script.py << '' @ [dq] @ ''EOF'' @ [dq, nl]
     @ code_escaped code @ [nl] @ ''EOF'' @ [nl]
     @ ''cd /tmp/'' @ name self @ ''/ && uv run script.py'' @ [nl, sq]"
  using assms by (auto simp: run_code_command_def)

lemma run_code_command_with_environment:
  assumes "kvs \<noteq> []"
  shows "run_code_command self code (Some kvs) cpus memory processes read_rate write_rate =
     docker_flags (str_int (processes_limit processes)) (py_str (cpu_limit cpus))
       (str_int (memory_limit memory)) (read_rate_limit read_rate)
       (write_rate_limit write_rate)
     @ [sq, nl] @ get_env_exports kvs @ '' && mkdir -p /tmp/'' @ name self
     @ '' && cat > /tmp/'' @ name self @ ''/pyproject.toml << '' @ [dq] @ ''EOF'' @ [dq, nl]
     @ pyproject_escaped self @ [nl] @ ''EOF'' @ [nl]
     @ ''cat > /tmp/'' @ name self @ ''/script.py << '' @ [dq] @ ''EOF'' @ [dq, nl]
     @ code_escaped code @ [nl] @ ''EOF'' @ [nl]
     @ ''cd /tmp/'' @ name self @ ''/ && uv run script.py'' @ [nl, sq]"
  using assms by (simp add: run_code_command_def Let_def)

lemma no_export_without_environment:
  assumes env: "environment = None \<or> environment = Some []"
    and "\<not> sublist ''export'' (name self)"
    and "\<not> sublist ''export'' (pyproject self)"
    and "\<not> sublist ''export'' code"
    and "\<not> sublist ''export'' (py_str (cpu_limit cpus))"
    and "\<not> sublist ''export'' (read_rate_limit read_rate)"
    and "\<not> sublist ''export'' (write_rate_limit write_rate)"
  shows "\<not> sublist ''export''
     (run_code_command self code environment cpus memory processes read_rate write_rate)"
proof -
  have p: "\<not> sublist ''export'' (pyproject_escaped self)"
    unfolding pyproject_escaped_def using assms(3) by (rule no_export_in_escaped)
  have c: "\<not> sublist ''export'' (code_escaped code)"
    unfolding code_escaped_def using assms(4) by (rule no_export_in_escaped)
  show ?thesis
    unfolding run_code_command_without_environment [OF env]
    using assms(2,5,6,7) p c no_export_in_str_int
    by (simp add: sublist_Cons_right export_sep sq_def dq_def nl_def)
qed


text \<open>
  C6, as the code has it. With an environment that is not empty the command has, right
  after the opening quote and newline, one assignment \<open>export K='V'\<close> for each entry, in
  the order of the entries, joined by \<open>&&\<close>, and then the \<open>mkdir\<close>. With no environment
  or an empty one this segment is left out: the \<open>mkdir\<close> follows the opening at once, and
  \<open>export\<close> occurs in the command only if the name of the sandbox, the manifest, the
  code or a limit text has it.
\<close>

theorem exports_per_entry_or_none:
  "get_env_exports [(k, v)] = ''export '' @ k @ ''='' @ [sq] @ v @ [sq]
   \<and> get_env_exports ((k, v) # kv # kvs) =
       ''export '' @ k @ ''='' @ [sq] @ v @ [sq] @ '' && '' @ get_env_exports (kv # kvs)
   \<and> (env \<noteq> [] \<longrightarrow>
        (\<exists>rest. run_code_command self code (Some env) cpus memory processes read_rate write_rate =
           docker_flags (str_int (processes_limit processes)) (py_str (cpu_limit cpus))
             (str_int (memory_limit memory)) (read_rate_limit read_rate)
             (write_rate_limit write_rate)
           @ [sq, nl] @ get_env_exports env @ '' && mkdir -p /tmp/'' @ name self @ rest))
   \<and> (environment = None \<or> environment = Some [] \<longrightarrow>
        (\<exists>rest. run_code_command self code environment cpus memory processes read_rate write_rate =
           docker_flags (str_int (processes_limit processes)) (py_str (cpu_limit cpus))
             (str_int (memory_limit memory)) (read_rate_limit read_rate)
             (write_rate_limit write_rate)
           @ [sq, nl] @ ''mkdir -p /tmp/'' @ name self @ rest))
   \<and> ((environment = None \<or> environment = Some [])
        \<and> \<not> sublist ''export'' (name self)
        \<and> \<not> sublist ''export'' (pyproject self)
        \<and> \<not> sublist ''export'' code
        \<and> \<not> sublist ''export'' (py_str (cpu_limit cpus))
        \<and> \<not> sublist ''export'' (read_rate_limit read_rate)
        \<and> \<not> sublist ''export'' (write_rate_limit write_rate) \<longrightarrow>
        \<not> sublist ''export''
          (run_code_command self code environment cpus memory processes read_rate write_rate))"
proof (intro conjI impI)
  show "get_env_exports [(k, v)] = ''export '' @ k @ ''='' @ [sq] @ v @ [sq]"
    by (simp add: get_env_exports_def)
  show "get_env_exports ((k, v) # kv # kvs) =
       ''export '' @ k @ ''='' @ [sq] @ v @ [sq] @ '' && '' @ get_env_exports (kv # kvs)"
    by (simp add: get_env_exports_def)
next
  assume "env \<noteq> []"
  then show "\<exists>rest. run_code_command self code (Some env) cpus memory processes read_rate write_rate =
           docker_flags (str_int (processes_limit processes)) (py_str (cpu_limit cpus))
             (str_int (memory_limit memory)) (read_rate_limit read_rate)
             (write_rate_limit write_rate)
           @ [sq, nl] @ get_env_exports env @ '' && mkdir -p /tmp/'' @ name self @ rest"
    by (simp add: run_code_command_with_environment)
next
  assume "environment = None \<or> environment = Some []"
  then show "\<exists>rest. run_code_command self code environment cpus memory processes read_rate write_rate =
           docker_flags (str_int (processes_limit processes)) (py_str (cpu_limit cpus))
             (str_int (memory_limit memory)) (read_rate_limit read_rate)
             (write_rate_limit write_rate)
           @ [sq, nl] @ ''mkdir -p /tmp/'' @ name self @ rest"
    by (simp add: run_code_command_without_environment)
next
  assume "(environment = None \<or> environment = Some [])
        \<and> \<not> sublist ''export'' (name self)
        \<and> \<not> sublist ''export'' (pyproject self)
        \<and> \<not> sublist ''export'' code
        \<and> \<not> sublist ''export'' (py_str (cpu_limit cpus))
        \<and> \<not> sublist ''export'' (read_rate_limit read_rate)
        \<and> \<not> sublist ''export'' (write_rate_limit write_rate)"
  then show "\<not> sublist ''export''
          (run_code_command self code environment cpus memory processes read_rate write_rate)"
    by (intro no_export_without_environment) simp_all
qed

theorem exports_per_entry_or_none_witness:
  "(\<exists>rest. run_code_command test_sandbox test_code
        (Some [(''OPENAI_API_KEY'', ''test-key''), (''PYTHONBUFFERED'', ''1'')])
        None None None None None =
      ''docker run --pids-limit 100 --cpus 1 -m 512m --device-read-bps=/dev/sda:10mb --device-write-bps=/dev/sda:10mb --rm ghcr.io/astral-sh/uv:alpine /bin/sh -c ''
      @ [sq, nl] @ ''export OPENAI_API_KEY='' @ [sq] @ ''test-key'' @ [sq]
      @ '' && export PYTHONBUFFERED='' @ [sq] @ ''1'' @ [sq]
      @ '' && mkdir -p /tmp/sandbox-1'' @ rest)
   \<and> \<not> sublist ''export''
       (run_code_command test_sandbox test_code None None None None None None)"
proof -
  let ?env = "[(''OPENAI_API_KEY'', ''test-key''), (''PYTHONBUFFERED'', ''1'')]"
  have lim: "str_int (processes_limit None) = ''100''" "py_str (cpu_limit None) = ''1''"
      "str_int (memory_limit None) = ''512''" "read_rate_limit None = ''10mb''"
      "write_rate_limit None = ''10mb''"
    by (simp_all add: processes_limit_def cpu_limit_def memory_limit_def read_rate_limit_def
        write_rate_limit_def py_or_def str_int_100 str_int_1 str_int_512)
  have ne: "?env \<noteq> []" by simp
  have e1: "get_env_exports [(''PYTHONBUFFERED'', ''1'')] =
      ''export '' @ ''PYTHONBUFFERED'' @ ''='' @ [sq] @ ''1'' @ [sq]"
    by (rule exports_per_entry_or_none [THEN conjunct1])
  have e2: "get_env_exports ((''OPENAI_API_KEY'', ''test-key'') # (''PYTHONBUFFERED'', ''1'') # []) =
      ''export '' @ ''OPENAI_API_KEY'' @ ''='' @ [sq] @ ''test-key'' @ [sq] @ '' && ''
      @ get_env_exports ((''PYTHONBUFFERED'', ''1'') # [])"
    by (rule exports_per_entry_or_none [THEN conjunct2, THEN conjunct1])
  have ex: "get_env_exports ?env =
      ''export OPENAI_API_KEY='' @ [sq] @ ''test-key'' @ [sq]
      @ '' && export PYTHONBUFFERED='' @ [sq] @ ''1'' @ [sq]"
    unfolding e2 e1 by simp
  have none: "(None :: (string \<times> string) list option) = None \<or> None = Some []" by simp
  have free: "\<not> sublist ''export'' (name test_sandbox)"
      "\<not> sublist ''export'' (pyproject test_sandbox)"
      "\<not> sublist ''export'' test_code"
      "\<not> sublist ''export'' (py_str (cpu_limit None))"
      "\<not> sublist ''export'' (read_rate_limit None)"
      "\<not> sublist ''export'' (write_rate_limit None)"
    unfolding lim by (simp_all add: test_sandbox_def test_code_def sublist_Cons_right sq_def)
  note inst = exports_per_entry_or_none [of _ _ _ _ ?env test_sandbox test_code None None None
      None None None]
  from inst ne have "\<exists>rest. run_code_command test_sandbox test_code (Some ?env)
        None None None None None =
      docker_flags (str_int (processes_limit None)) (py_str (cpu_limit None))
        (str_int (memory_limit None)) (read_rate_limit None) (write_rate_limit None)
      @ [sq, nl] @ get_env_exports ?env @ '' && mkdir -p /tmp/'' @ name test_sandbox @ rest"
    by blast
  then have a: "\<exists>rest. run_code_command test_sandbox test_code (Some ?env)
        None None None None None =
      ''docker run --pids-limit 100 --cpus 1 -m 512m --device-read-bps=/dev/sda:10mb --device-write-bps=/dev/sda:10mb --rm ghcr.io/astral-sh/uv:alpine /bin/sh -c ''
      @ [sq, nl] @ ''export OPENAI_API_KEY='' @ [sq] @ ''test-key'' @ [sq]
      @ '' && export PYTHONBUFFERED='' @ [sq] @ ''1'' @ [sq]
      @ '' && mkdir -p /tmp/sandbox-1'' @ rest"
    unfolding lim ex by (simp add: test_sandbox_def)
  from inst none free have b: "\<not> sublist ''export''
       (run_code_command test_sandbox test_code None None None None None None)"
    by blast
  from a b show ?thesis by (rule conjI)
qed

text \<open>
  C6 as it is written fails where it says that no \<open>export\<close> occurs anywhere: the code
  of the caller is part of the command, and so is an \<open>export\<close> in it.
\<close>

theorem export_in_code_counterexample:
  "sublist ''export''
     (run_code_command test_sandbox (''print('' @ [sq] @ ''export'' @ [sq] @ '')'')
        None None None None None None)"
  by (simp add: run_code_command_def test_sandbox_def processes_limit_def
      cpu_limit_def memory_limit_def read_rate_limit_def write_rate_limit_def py_or_def
      str_int_100 str_int_512 str_int_1 pyproject_escaped_def code_escaped_def replace_def
      sq_def bs_def dq_def nl_def sublist_Cons_right)


section \<open>The orchestrator: single quotes and the remote shell\<close>













lemma default_limits:
  "str_int (processes_limit None) = ''100''" "py_str (cpu_limit None) = ''1''"
  "str_int (memory_limit None) = ''512''" "read_rate_limit None = ''10mb''"
  "write_rate_limit None = ''10mb''"
  by (simp_all add: processes_limit_def cpu_limit_def memory_limit_def read_rate_limit_def
      write_rate_limit_def py_or_def str_int_100 str_int_1 str_int_512)




text \<open>
  C10. The value of an environment variable goes into its assignment \<open>export K='V'\<close>
  as it is; the replacement of single quotes is not applied to it. With the value
  \<open>it's\<close> the assignment in the command is \<open>export OPENAI_API_KEY='it's'\<close>, and the
  remote shell ends the argument of \<open>/bin/sh -c\<close> after \<open>export OPENAI_API_KEY=its\<close>: the
  rest, from \<open>&& mkdir\<close> on, is outside the quoted argument.
\<close>

theorem environment_values_verbatim:
  "(env \<noteq> [] \<longrightarrow>
      (\<exists>rest. run_code_command self code (Some env) cpus memory processes read_rate write_rate =
         docker_flags (str_int (processes_limit processes)) (py_str (cpu_limit cpus))
           (str_int (memory_limit memory)) (read_rate_limit read_rate)
           (write_rate_limit write_rate)
         @ [sq, nl]
         @ join '' && '' (map (\<lambda>(k, v). ''export '' @ k @ ''='' @ [sq] @ v @ [sq]) env)
         @ '' && mkdir -p /tmp/'' @ name self @ rest))
   \<and> (\<exists>arg rest.
        run_code_command test_sandbox test_code
          (Some [(''OPENAI_API_KEY'', ''it'' @ [sq] @ ''s'')]) None None None None None =
          ''docker run --pids-limit 100 --cpus 1 -m 512m --device-read-bps=/dev/sda:10mb --device-write-bps=/dev/sda:10mb --rm ghcr.io/astral-sh/uv:alpine /bin/sh -c '' @ arg
        \<and> sublist (''export OPENAI_API_KEY='' @ [sq] @ ''it'' @ [sq] @ ''s'' @ [sq]) arg
        \<and> sh_word False arg = Some ([nl] @ ''export OPENAI_API_KEY=its'', rest)
        \<and> prefix '' && mkdir -p /tmp/sandbox-1 && cat > /tmp/sandbox-1/pyproject.toml'' rest)"
proof (intro conjI impI)
  assume "env \<noteq> []"
  then show "\<exists>rest. run_code_command self code (Some env) cpus memory processes read_rate write_rate =
         docker_flags (str_int (processes_limit processes)) (py_str (cpu_limit cpus))
           (str_int (memory_limit memory)) (read_rate_limit read_rate)
           (write_rate_limit write_rate)
         @ [sq, nl]
         @ join '' && '' (map (\<lambda>(k, v). ''export '' @ k @ ''='' @ [sq] @ v @ [sq]) env)
         @ '' && mkdir -p /tmp/'' @ name self @ rest"
    by (simp add: run_code_command_with_environment get_env_exports_def)
next
  let ?env = "[(''OPENAI_API_KEY'', ''it'' @ [sq] @ ''s'')]"
  let ?tail = "'' && mkdir -p /tmp/sandbox-1 && cat > /tmp/sandbox-1/pyproject.toml << ''
      @ [dq] @ ''EOF'' @ [dq, nl] @ ''hello'' @ [nl] @ ''EOF'' @ [nl]
      @ ''cat > /tmp/sandbox-1/script.py << '' @ [dq] @ ''EOF'' @ [dq, nl]
      @ code_escaped test_code @ [nl] @ ''EOF'' @ [nl]
      @ ''cd /tmp/sandbox-1/ && uv run script.py'' @ [nl, sq]"
  let ?arg = "[sq, nl] @ ''export OPENAI_API_KEY='' @ [sq] @ ''it'' @ [sq] @ ''s'' @ [sq] @ ?tail"
  have ne: "?env \<noteq> []" by simp
  have cmd: "run_code_command test_sandbox test_code (Some ?env) None None None None None =
      ''docker run --pids-limit 100 --cpus 1 -m 512m --device-read-bps=/dev/sda:10mb --device-write-bps=/dev/sda:10mb --rm ghcr.io/astral-sh/uv:alpine /bin/sh -c '' @ ?arg"
    unfolding run_code_command_with_environment [OF ne] default_limits
    by (simp add: get_env_exports_def test_sandbox_def pyproject_escaped_def replace_def sq_def)
  have sub: "sublist (''export OPENAI_API_KEY='' @ [sq] @ ''it'' @ [sq] @ ''s'' @ [sq]) ?arg"
    using sublist_appendI [of "''export OPENAI_API_KEY='' @ [sq] @ ''it'' @ [sq] @ ''s'' @ [sq]"
        "[sq, nl]" ?tail]
    by simp
  have word: "sh_word False ?arg = Some ([nl] @ ''export OPENAI_API_KEY=its'', ?tail)"
    by (simp add: sq_def bs_def nl_def emit_def word_end_def not_covered_def dq_def)
  have pre: "prefix '' && mkdir -p /tmp/sandbox-1 && cat > /tmp/sandbox-1/pyproject.toml'' ?tail"
    by simp
  from cmd sub word pre
  show "\<exists>arg rest.
        run_code_command test_sandbox test_code
          (Some [(''OPENAI_API_KEY'', ''it'' @ [sq] @ ''s'')]) None None None None None =
          ''docker run --pids-limit 100 --cpus 1 -m 512m --device-read-bps=/dev/sda:10mb --device-write-bps=/dev/sda:10mb --rm ghcr.io/astral-sh/uv:alpine /bin/sh -c '' @ arg
        \<and> sublist (''export OPENAI_API_KEY='' @ [sq] @ ''it'' @ [sq] @ ''s'' @ [sq]) arg
        \<and> sh_word False arg = Some ([nl] @ ''export OPENAI_API_KEY=its'', rest)
        \<and> prefix '' && mkdir -p /tmp/sandbox-1 && cat > /tmp/sandbox-1/pyproject.toml'' rest"
    by blast
qed

theorem environment_values_verbatim_witness:
  "\<exists>rest. run_code_command test_sandbox test_code
        (Some [(''OPENAI_API_KEY'', ''test-key''), (''PYTHONBUFFERED'', ''1'')])
        None None None None None =
      ''docker run --pids-limit 100 --cpus 1 -m 512m --device-read-bps=/dev/sda:10mb --device-write-bps=/dev/sda:10mb --rm ghcr.io/astral-sh/uv:alpine /bin/sh -c ''
      @ [sq, nl] @ ''export OPENAI_API_KEY='' @ [sq] @ ''test-key'' @ [sq]
      @ '' && export PYTHONBUFFERED='' @ [sq] @ ''1'' @ [sq]
      @ '' && mkdir -p /tmp/sandbox-1'' @ rest"
proof -
  let ?env = "[(''OPENAI_API_KEY'', ''test-key''), (''PYTHONBUFFERED'', ''1'')]"
  have ne: "?env \<noteq> []" by simp
  note inst = environment_values_verbatim [of ?env test_sandbox test_code None None None None None]
  from inst ne have "\<exists>rest. run_code_command test_sandbox test_code (Some ?env)
        None None None None None =
      docker_flags (str_int (processes_limit None)) (py_str (cpu_limit None))
        (str_int (memory_limit None)) (read_rate_limit None) (write_rate_limit None)
      @ [sq, nl]
      @ join '' && '' (map (\<lambda>(k, v). ''export '' @ k @ ''='' @ [sq] @ v @ [sq]) ?env)
      @ '' && mkdir -p /tmp/'' @ name test_sandbox @ rest"
    by blast
  then show ?thesis
    unfolding default_limits by (simp add: test_sandbox_def)
qed


section \<open>The manifest builder\<close>

text \<open>
  The loop of \<open>to_str\<close> strips commas and newlines after every entry, so each round
  leaves the accumulated text without the separator that the round has just appended: the
  entries end up one after the other.
\<close>

lemma strip_comma_newline:
  assumes "s \<noteq> []" and "hd s = CHR '' ''"
  shows "strip (s @ [dq] @ '','' @ [nl]) ('','' @ [nl]) = s @ [dq]"
proof -
  from assms obtain s' where s: "s = CHR '' '' # s'" by (cases s) auto
  have lead: "dropWhile (\<lambda>c. c \<in> set ('','' @ [nl])) (s @ [dq] @ '','' @ [nl]) =
      s @ [dq] @ '','' @ [nl]"
    by (simp add: s nl_def)
  have trail: "dropWhile (\<lambda>c. c \<in> set ('','' @ [nl])) (rev (s @ [dq] @ '','' @ [nl])) =
      dq # rev s"
    by (simp add: nl_def dq_def)
  show ?thesis
    unfolding strip_def lead trail by simp
qed

lemma add_dependency_appends:
  assumes "deps = [] \<or> hd deps = CHR '' ''"
  shows "add_dependency deps d = deps @ dependency_entry d"
proof -
  let ?s = "deps @ ''    '' @ [dq] @ dep_name d @ version_constraints d"
  have "?s \<noteq> []" by simp
  moreover have "hd ?s = CHR '' ''" using assms by (cases deps) auto
  ultimately have "strip (?s @ [dq] @ '','' @ [nl]) ('','' @ [nl]) = ?s @ [dq]"
    by (rule strip_comma_newline)
  then show ?thesis by (simp add: add_dependency_def)
qed

lemma foldl_add_dependency:
  assumes "deps = [] \<or> hd deps = CHR '' ''"
  shows "foldl add_dependency deps ds = deps @ concat (map dependency_entry ds)"
  using assms
proof (induction ds arbitrary: deps)
  case Nil
  then show ?case by simp
next
  case (Cons d ds)
  have step: "add_dependency deps d = deps @ dependency_entry d"
    using Cons.prems by (rule add_dependency_appends)
  have "deps @ dependency_entry d = [] \<or> hd (deps @ dependency_entry d) = CHR '' ''"
    using Cons.prems by (cases deps) auto
  from Cons.IH [OF this] show ?case by (simp add: step)
qed

lemma to_str_closed_form:
  "to_str self =
     [nl] @ ''[project]'' @ [nl]
     @ ''name = '' @ [dq] @ title self @ [dq] @ [nl]
     @ ''version = '' @ [dq] @ ''0.1.0'' @ [dq] @ [nl]
     @ ''description = '' @ [dq] @ ''Add your description here'' @ [dq] @ [nl]
     @ ''requires-python = '' @ [dq] @ ''>='' @ python_min_version self @ '',<''
         @ python_max_version self @ [dq] @ [nl]
     @ ''dependencies = ['' @ [nl]
     @ ''    '' @ concat (map dependency_entry (dependencies self)) @ [nl]
     @ '']'' @ [nl]"
  using foldl_add_dependency [of "[]" "dependencies self"]
  by (simp add: to_str_def Let_def)

text \<open>
  C9 at a configuration with two dependencies. The manifest has the project section with
  the title, the placeholders and the range \<open>>=3.13,<4\<close>, and one entry for each
  dependency, the name directly followed by the constraints; but the two entries stand
  side by side with four spaces in between, and no comma with a newline separates them.
\<close>

theorem to_str_two_dependencies:
  "to_str \<lparr>dependencies =
        [\<lparr>dep_name = ''typing-extensions'', version_constraints = ''<5''\<rparr>,
         \<lparr>dep_name = ''requests'', version_constraints = ''>=2''\<rparr>],
      title = ''test-project'', python_min_version = ''3.13'', python_max_version = ''4''\<rparr> =
     [nl] @ ''[project]'' @ [nl]
     @ ''name = '' @ [dq] @ ''test-project'' @ [dq] @ [nl]
     @ ''version = '' @ [dq] @ ''0.1.0'' @ [dq] @ [nl]
     @ ''description = '' @ [dq] @ ''Add your description here'' @ [dq] @ [nl]
     @ ''requires-python = '' @ [dq] @ ''>=3.13,<4'' @ [dq] @ [nl]
     @ ''dependencies = ['' @ [nl]
     @ ''        '' @ [dq] @ ''typing-extensions<5'' @ [dq]
     @ ''    '' @ [dq] @ ''requests>=2'' @ [dq] @ [nl]
     @ '']'' @ [nl]
   \<and> \<not> sublist ([dq] @ '','' @ [nl])
       (to_str \<lparr>dependencies =
          [\<lparr>dep_name = ''typing-extensions'', version_constraints = ''<5''\<rparr>,
           \<lparr>dep_name = ''requests'', version_constraints = ''>=2''\<rparr>],
        title = ''test-project'', python_min_version = ''3.13'', python_max_version = ''4''\<rparr>)"
  by (simp add: to_str_closed_form sublist_Cons_right dq_def nl_def)

end
